theory Spec2Isabelle
  imports Complex_Main
begin

section \<open>MiniPython: values, syntax trees and Python's built-ins\<close>

text \<open>
  The repository holds four variants of one small compiler front end and interpreter.
  \<^verbatim>\<open>TP4.py\<close> is the variant with an evaluator for expressions (\<^verbatim>\<open>execute\<close> with its
  inner \<^verbatim>\<open>eval_expr\<close>); \<^verbatim>\<open>analyse2.py\<close> has the richest syntax tree (\<^verbatim>\<open>while\<close>,
  \<^verbatim>\<open>if\<close>, the four operators); \<^verbatim>\<open>analyse_minipython.py\<close> and \<^verbatim>\<open>prgPythonPur.py\<close> are
  older variants, the last one with a hand-written lexer, parser and evaluator.
  Lexing and parsing in the first three variants are done by the Lark library, which is not
  part of the repository: the functions below start from the tuples that the
  \<^verbatim>\<open>SyntaxTransformer\<close> classes build.

  A Python \<^verbatim>\<open>str\<close> is a \<^typ>\<open>string\<close> whose characters are read as the code points 0 to 255.

  A Python number is an \<^verbatim>\<open>int\<close> (unbounded) or a \<^verbatim>\<open>float\<close>. A float is represented by
  the rational number it stands for: the rounding of IEEE doubles, signed zeros, infinities
  and the \<^verbatim>\<open>OverflowError\<close> of integers beyond the range of a double are outside this
  model. What the theorems below use of a float is that it is not an \<^verbatim>\<open>int\<close>, and its
  value where that value is exactly representable, as 3.5 is.
\<close>

datatype pyval = PInt int | PFloat rat

fun as_rat :: "pyval \<Rightarrow> rat" where
  "as_rat (PInt n) = of_int n"
| "as_rat (PFloat q) = q"

text \<open>\<^verbatim>\<open>left + right\<close>, \<^verbatim>\<open>left - right\<close>, \<^verbatim>\<open>left * right\<close>: an \<^verbatim>\<open>int\<close> when both operands
  are, a \<^verbatim>\<open>float\<close> otherwise.\<close>

definition py_add :: "pyval \<Rightarrow> pyval \<Rightarrow> pyval" where
  "py_add l r = (case (l, r) of (PInt a, PInt b) \<Rightarrow> PInt (a + b)
                 | _ \<Rightarrow> PFloat (as_rat l + as_rat r))"

definition py_sub :: "pyval \<Rightarrow> pyval \<Rightarrow> pyval" where
  "py_sub l r = (case (l, r) of (PInt a, PInt b) \<Rightarrow> PInt (a - b)
                 | _ \<Rightarrow> PFloat (as_rat l - as_rat r))"

definition py_mul :: "pyval \<Rightarrow> pyval \<Rightarrow> pyval" where
  "py_mul l r = (case (l, r) of (PInt a, PInt b) \<Rightarrow> PInt (a * b)
                 | _ \<Rightarrow> PFloat (as_rat l * as_rat r))"

text \<open>\<^verbatim>\<open>left / right\<close> is Python 3's true division: the result is a \<^verbatim>\<open>float\<close> whatever the
  operands are. It is only called with a non-zero right operand.\<close>

definition py_truediv :: "pyval \<Rightarrow> pyval \<Rightarrow> pyval" where
  "py_truediv l r = PFloat (as_rat l / as_rat r)"

text \<open>\<^verbatim>\<open>right != 0\<close>: numbers are compared by value, so the float zero equals 0 too.\<close>

definition py_ne_zero :: "pyval \<Rightarrow> bool" where
  "py_ne_zero v \<longleftrightarrow> as_rat v \<noteq> 0"

text \<open>
  \<^verbatim>\<open>int(s)\<close> on a string: surrounding whitespace is dropped, then an optional sign, then
  decimal digits, where single underscores may stand between digits. \<open>None\<close> is the
  \<^verbatim>\<open>ValueError\<close>. (The limit on the number of digits of recent Python versions is not
  modelled.)
\<close>

definition int_space :: "char \<Rightarrow> bool" where
  "int_space c \<longleftrightarrow> (of_char c :: nat) \<in> {9, 10, 11, 12, 13, 32, 133, 160}"

definition is_decimal :: "char \<Rightarrow> bool" where
  "is_decimal c \<longleftrightarrow> 48 \<le> (of_char c :: nat) \<and> (of_char c :: nat) \<le> 57"

definition strip :: "string \<Rightarrow> string" where
  "strip s = rev (dropWhile int_space (rev (dropWhile int_space s)))"

fun digits_value :: "string \<Rightarrow> bool \<Rightarrow> nat \<Rightarrow> nat option" where
  "digits_value [] us n = (if us then None else Some n)"
| "digits_value (c # cs) us n =
     (if is_decimal c then digits_value cs False (10 * n + (of_char c - 48))
      else if c = CHR ''_'' \<and> \<not> us then digits_value cs True n
      else None)"

definition py_int :: "string \<Rightarrow> int option" where
  "py_int s =
     (case strip s of
        [] \<Rightarrow> None
      | c # cs \<Rightarrow>
          if c = CHR ''+'' then map_option int (digits_value cs True 0)
          else if c = CHR ''-'' then map_option (\<lambda>n. - int n) (digits_value cs True 0)
          else map_option int (digits_value (c # cs) True 0))"

text \<open>\<^verbatim>\<open>s.isdigit()\<close>: at least one character, and all of them digits; below 256 these are
  \<^verbatim>\<open>0\<close> to \<^verbatim>\<open>9\<close> and the superscripts 1, 2 and 3.\<close>

definition isdigit :: "string \<Rightarrow> bool" where
  "isdigit s \<longleftrightarrow> s \<noteq> [] \<and>
     list_all (\<lambda>c. is_decimal c \<or> (of_char c :: nat) \<in> {178, 179, 185}) s"

subsection \<open>Syntax trees\<close>

text \<open>
  An expression is what \<^verbatim>\<open>eval_expr\<close> distinguishes with \<^verbatim>\<open>isinstance\<close>: a Python \<^verbatim>\<open>int\<close>
  (a \<^verbatim>\<open>NUMBER\<close>), a \<^verbatim>\<open>str\<close> (a name) or a tuple \<^verbatim>\<open>(op, left, right)\<close>, as the methods
  \<^verbatim>\<open>add\<close>, \<^verbatim>\<open>sub\<close>, \<^verbatim>\<open>mul\<close> and \<^verbatim>\<open>div\<close> of the syntax transformer of \<^verbatim>\<open>analyse2.py\<close>
  build them, with \<^verbatim>\<open>op\<close> one of \<^verbatim>\<open>+ - * /\<close>. (The grammar of \<^verbatim>\<open>TP4.py\<close> itself has
  names and numbers only; the branch of \<^verbatim>\<open>eval_expr\<close> for tuples serves the trees of the
  richer grammar.)
\<close>

datatype binop = Plus | Minus | Times | Divide

datatype expr = EInt int | EStr string | EBin binop expr expr

text \<open>
  A statement is a tagged tuple. \<^verbatim>\<open>TP4.py\<close> builds \<^verbatim>\<open>("decl", names)\<close>,
  \<^verbatim>\<open>("assign", name, expr)\<close> and \<^verbatim>\<open>("print", name)\<close>. The \<^verbatim>\<open>while\<close> and \<^verbatim>\<open>if\<close> nodes
  exist in \<^verbatim>\<open>analyse2.py\<close> only: \<^verbatim>\<open>(tag, condition, statements)\<close>, where the condition
  is \<^verbatim>\<open>("compare", items[0], items[1])\<close>, the left operand and the operator.
  The variants differ in the spelling of their tags; under a function of a variant, \<open>Decl\<close>,
  \<open>Assign\<close> and \<open>Print\<close> are the statements with the tags of that variant.
\<close>

datatype cond = Compare expr string

datatype stmt =
    Decl "string list"
  | Assign string expr
  | Print string
  | While_stmt cond "stmt list"
  | If_stmt cond "stmt list"

section \<open>TP4: semantic analysis\<close>

datatype error = Redeclared string | UndeclaredVariable string

type_synonym symbol_table = "string \<rightharpoonup> string"

text \<open>
  The inner loop of the \<^verbatim>\<open>decl\<close> branch. The table is a field of the
  \<^verbatim>\<open>SemanticTransformer\<close> object and is updated in place, so the names inserted before a
  redeclaration stay in it: the table is returned with the error as well.
\<close>

fun declare_vars :: "string list \<Rightarrow> symbol_table \<Rightarrow> error option \<times> symbol_table" where
  "declare_vars [] st = (None, st)"
| "declare_vars (var # vars) st =
     (if st var \<noteq> None then (Some (Redeclared var), st)
      else declare_vars vars (st(var \<mapsto> ''int'')))"

text \<open>
  \<^verbatim>\<open>SemanticTransformer.check\<close>: the statements that pass are collected in \<^verbatim>\<open>new_ast\<close>,
  in order; a statement with any other tag is neither checked nor collected. An exception
  loses \<^verbatim>\<open>new_ast\<close> and leaves the table as it is at that moment. \<open>keep\<close> is
  \<^verbatim>\<open>new_ast.append(stmt)\<close>, seen from the rest of the loop.
\<close>

fun keep :: "'s \<Rightarrow> (error + 's list) \<times> symbol_table \<Rightarrow> (error + 's list) \<times> symbol_table" where
  "keep stmt (Inl e, st) = (Inl e, st)"
| "keep stmt (Inr new_ast, st) = (Inr (stmt # new_ast), st)"

fun check :: "stmt list \<Rightarrow> symbol_table \<Rightarrow> (error + stmt list) \<times> symbol_table" where
  "check [] st = (Inr [], st)"
| "check (Decl var_list # rest) st =
     (case declare_vars var_list st of
        (Some e, st') \<Rightarrow> (Inl e, st')
      | (None, st') \<Rightarrow> keep (Decl var_list) (check rest st'))"
| "check (Assign var e # rest) st =
     (if st var = None then (Inl (UndeclaredVariable var), st)
      else keep (Assign var e) (check rest st))"
| "check (Print var # rest) st =
     (if st var = None \<and> \<not> isdigit var then (Inl (UndeclaredVariable var), st)
      else keep (Print var) (check rest st))"
| "check (While_stmt c body # rest) st = check rest st"
| "check (If_stmt c body # rest) st = check rest st"


section \<open>TP4: execution\<close>

type_synonym runtime = "string \<rightharpoonup> pyval"

text \<open>\<^verbatim>\<open>runtime = {var: 0 for var in symbol_table.keys()}\<close>\<close>

definition init_runtime :: "symbol_table \<Rightarrow> runtime" where
  "init_runtime st = (\<lambda>var. case st var of None \<Rightarrow> None | Some _ \<Rightarrow> Some (PInt 0))"

text \<open>
  \<^verbatim>\<open>eval_expr\<close> reads the \<^verbatim>\<open>runtime\<close> of the enclosing \<^verbatim>\<open>execute\<close>. A string that is not a
  key is converted with \<^verbatim>\<open>int\<close>, and any exception of that conversion gives 0.
\<close>

fun eval_expr :: "runtime \<Rightarrow> expr \<Rightarrow> pyval" where
  "eval_expr rt (EInt n) = PInt n"
| "eval_expr rt (EStr s) =
     (case rt s of
        Some v \<Rightarrow> v
      | None \<Rightarrow> (case py_int s of Some n \<Rightarrow> PInt n | None \<Rightarrow> PInt 0))"
| "eval_expr rt (EBin op l r) =
     (let left = eval_expr rt l; right = eval_expr rt r
      in case op of
           Plus \<Rightarrow> py_add left right
         | Minus \<Rightarrow> py_sub left right
         | Times \<Rightarrow> py_mul left right
         | Divide \<Rightarrow> if py_ne_zero right then py_truediv left right else PInt 0)"

text \<open>
  One turn of the statement loop of \<^verbatim>\<open>execute\<close>, on the runtime and the values printed
  so far. Only \<^verbatim>\<open>assign\<close> and \<^verbatim>\<open>print\<close> have a branch.
\<close>

fun exec_stmt :: "stmt \<Rightarrow> runtime \<times> pyval list \<Rightarrow> runtime \<times> pyval list" where
  "exec_stmt (Assign var e) (rt, out) =
     (let val = eval_expr rt e
      in if rt var \<noteq> None then (rt(var \<mapsto> val), out) else (rt, out))"
| "exec_stmt (Print var) (rt, out) = (rt, out @ [eval_expr rt (EStr var)])"
| "exec_stmt _ (rt, out) = (rt, out)"

fun run :: "stmt list \<Rightarrow> runtime \<times> pyval list \<Rightarrow> runtime \<times> pyval list" where
  "run [] s = s"
| "run (stmt # ast) s = run ast (exec_stmt stmt s)"

definition execute :: "stmt list \<Rightarrow> symbol_table \<Rightarrow> runtime \<times> pyval list" where
  "execute ast symbol_table = run ast (init_runtime symbol_table, [])"


section \<open>The semantic analysis of the two other Lark variants\<close>


text \<open>
  The tuples of \<^verbatim>\<open>analyse_minipython.py\<close>: \<^verbatim>\<open>("decl(L)", names, 'int')\<close>,
  \<^verbatim>\<open>("assign(S)", name, expr)\<close>, \<^verbatim>\<open>("print(S)", name)\<close> and
  \<^verbatim>\<open>('+(S)', str(items[0]), int(items[1]))\<close>, the only compound expression. Its \<^verbatim>\<open>check\<close>
  has a branch for a \<^verbatim>\<open>+(S)\<close> tuple that is itself an element of the statement list.
\<close>

datatype mp_expr = MP_int int | MP_str string | MP_add string int



text \<open>The names that the declarations of a tree declare, in order.\<close>

fun declared :: "stmt list \<Rightarrow> string list" where
  "declared [] = []"
| "declared (Decl vars # rest) = vars @ declared rest"
| "declared (_ # rest) = declared rest"


section \<open>prgPythonPur: lexer and evaluator\<close>









text \<open>
  The tree of \<^verbatim>\<open>prgPythonPur.py\<close>, as its parser builds it: a declaration with its names,
  \<^verbatim>\<open>(tag, [target, expr])\<close> for an assignment and \<^verbatim>\<open>(tag, [name])\<close> for a print, where
  an expression is a sum of a variable and a constant, a constant or a variable.
\<close>

datatype pur_expr = Expr_plus string int | Expr_const string | Expr_var string

datatype pur_stmt =
    Pur_decl "string list"
  | Pur_assign string pur_expr
  | Pur_print string

datatype pur_error = IndexError | KeyError string

text \<open>
  \<^verbatim>\<open>execute\<close> of \<^verbatim>\<open>prgPythonPur.py\<close>. The runtime binds every name of the table to
  \<^verbatim>\<open>None\<close>. The branch of an assignment reads \<^verbatim>\<open>stmt[2]\<close>, and the node has the two
  components \<^verbatim>\<open>stmt[0]\<close> and \<^verbatim>\<open>stmt[1]\<close> only: Python raises \<^verbatim>\<open>IndexError\<close> before
  anything is stored. \<^verbatim>\<open>print(runtime[var])\<close> raises \<^verbatim>\<open>KeyError\<close> for a name that is not
  a key. The result is the exception, if any, and what was printed, where the printed
  \<open>None\<close> is Python's \<^verbatim>\<open>None\<close>.
\<close>

fun run_pur ::
  "pur_stmt list \<Rightarrow> (string \<rightharpoonup> int option) \<Rightarrow> int option list \<Rightarrow> pur_error option \<times> int option list"
where
  "run_pur [] rt out = (None, out)"
| "run_pur (Pur_assign var e # ast) rt out = (Some IndexError, out)"
| "run_pur (Pur_print var # ast) rt out =
     (case rt var of
        None \<Rightarrow> (Some (KeyError var), out)
      | Some v \<Rightarrow> run_pur ast rt (out @ [v]))"
| "run_pur (Pur_decl vars # ast) rt out = run_pur ast rt out"

definition execute_pur :: "pur_stmt list \<Rightarrow> symbol_table \<Rightarrow> pur_error option \<times> int option list" where
  "execute_pur ast symbol_table =
     run_pur ast (\<lambda>var. case symbol_table var of None \<Rightarrow> None | Some _ \<Rightarrow> Some None) []"

section \<open>Auxiliary facts\<close>







lemma dom_exec_stmt: "dom (fst (exec_stmt stmt s)) = dom (fst s)"
  by (cases "(stmt, s)" rule: exec_stmt.cases) (auto simp: Let_def)

lemma dom_run: "dom (fst (run ast s)) = dom (fst s)"
  by (induction ast arbitrary: s) (auto simp: dom_exec_stmt)

lemma dom_init_runtime: "dom (init_runtime st) = dom st"
  by (auto simp: init_runtime_def split: option.splits)

lemma exec_stmt_other: "\<forall>e. stmt \<noteq> Assign var e \<Longrightarrow> fst (exec_stmt stmt s) var = fst s var"
  by (cases "(stmt, s)" rule: exec_stmt.cases) (auto simp: Let_def)

lemma run_unassigned: "\<forall>e. Assign var e \<notin> set ast \<Longrightarrow> fst (run ast s) var = fst s var"
proof (induction ast arbitrary: s)
  case Nil
  then show ?case by simp
next
  case (Cons stmt ast)
  have "fst (exec_stmt stmt s) var = fst s var"
    using Cons.prems by (intro exec_stmt_other) auto
  moreover have "fst (run ast (exec_stmt stmt s)) var = fst (exec_stmt stmt s) var"
    using Cons.prems by (intro Cons.IH) auto
  ultimately show ?case by simp
qed


lemma declare_vars_mono: "dom st \<subseteq> dom (snd (declare_vars vars st))"
proof (induction vars arbitrary: st)
  case Nil
  then show ?case by simp
next
  case (Cons v vars)
  show ?case
  proof (cases "st v")
    case None
    have "dom st \<subseteq> dom (st(v \<mapsto> ''int''))" by auto
    also have "\<dots> \<subseteq> dom (snd (declare_vars vars (st(v \<mapsto> ''int''))))" by (rule Cons.IH)
    finally show ?thesis using None by simp
  next
    case (Some y)
    then show ?thesis by simp
  qed
qed

lemma declare_vars_inserted:
  "fst (declare_vars vars st) = None \<Longrightarrow> set vars \<subseteq> dom (snd (declare_vars vars st))"
proof (induction vars arbitrary: st)
  case Nil
  then show ?case by simp
next
  case (Cons v vars)
  show ?case
  proof (cases "st v")
    case None
    then have eq: "declare_vars (v # vars) st = declare_vars vars (st(v \<mapsto> ''int''))"
      by simp
    have f: "fst (declare_vars vars (st(v \<mapsto> ''int''))) = None"
      using Cons.prems unfolding eq .
    have "v \<in> dom (st(v \<mapsto> ''int''))" by simp
    then have "v \<in> dom (snd (declare_vars vars (st(v \<mapsto> ''int''))))"
      using declare_vars_mono [of "st(v \<mapsto> ''int'')" vars] by blast
    moreover have "set vars \<subseteq> dom (snd (declare_vars vars (st(v \<mapsto> ''int''))))"
      by (rule Cons.IH [OF f])
    ultimately show ?thesis unfolding eq by simp
  next
    case (Some y)
    then show ?thesis using Cons.prems by simp
  qed
qed

lemma keep_snd: "snd (keep s r) = snd r"
  by (cases "(s, r)" rule: keep.cases) auto

lemma keep_Inr: "keep s r = (Inr new, t) \<Longrightarrow> \<exists>new'. r = (Inr new', t) \<and> new = s # new'"
  by (cases "(s, r)" rule: keep.cases) auto

lemma check_mono: "dom st \<subseteq> dom (snd (check ast st))"
proof (induction ast st rule: check.induct)
  case (1 st)
  then show ?case by simp
next
  case (2 var_list rest st)
  obtain e st' where d: "declare_vars var_list st = (e, st')" by (cases "declare_vars var_list st")
  have m: "dom st \<subseteq> dom st'" using declare_vars_mono [of st var_list] d by simp
  show ?case
  proof (cases e)
    case None
    have d': "(None, st') = declare_vars var_list st" using d None by simp
    have "dom st' \<subseteq> dom (snd (check rest st'))"
      by (rule 2 [OF d' refl])
    then show ?thesis using m d None by (simp add: keep_snd)
  next
    case (Some a)
    then show ?thesis using d m by simp
  qed
next
  case (3 var e rest st)
  then show ?case by (simp add: keep_snd)
next
  case (4 var rest st)
  then show ?case by (simp add: keep_snd)
next
  case (5 c body rest st)
  then show ?case by simp
next
  case (6 c body rest st)
  then show ?case by simp
qed

lemma check_rerun:
  "check ast st0 = (Inr new, t) \<Longrightarrow> dom t \<subseteq> dom t2 \<Longrightarrow>
   check ast t2 = (if declared ast = [] then (Inr new, t2)
                   else (Inl (Redeclared (hd (declared ast))), t2))"
proof (induction ast st0 arbitrary: new t2 rule: check.induct)
  case (1 st)
  then show ?case by simp
next
  case (2 var_list rest st)
  obtain e st' where d: "declare_vars var_list st = (e, st')" by (cases "declare_vars var_list st")
  have e: "e = None" using 2(2) d by (cases e) auto
  then obtain new' where r: "check rest st' = (Inr new', t)" and n: "new = Decl var_list # new'"
    using 2(2) d keep_Inr [of "Decl var_list" "check rest st'" new t] by auto
  have ih: "check rest t2 = (if declared rest = [] then (Inr new', t2)
                             else (Inl (Redeclared (hd (declared rest))), t2))"
    using 2(1) [OF _ refl r 2(3)] d e by simp
  show ?case
  proof (cases var_list)
    case Nil
    then show ?thesis using ih n by simp
  next
    case (Cons v vs)
    have "set var_list \<subseteq> dom st'"
      using declare_vars_inserted [of var_list st] d e by simp
    moreover have "dom st' \<subseteq> dom t" using check_mono [of st' rest] r by simp
    ultimately have "v \<in> dom t2" using Cons 2(3) by auto
    then show ?thesis using Cons by auto
  qed
next
  case (3 var e rest st)
  have s: "st var \<noteq> None" using 3(2) by (auto split: if_splits)
  then obtain new' where r: "check rest st = (Inr new', t)" and n: "new = Assign var e # new'"
    using 3(2) keep_Inr [of "Assign var e" "check rest st" new t] by auto
  have "dom st \<subseteq> dom t" using check_mono [of st rest] r by simp
  then have t2: "t2 var \<noteq> None" using s 3(3) by auto
  have ih: "check rest t2 = (if declared rest = [] then (Inr new', t2)
                             else (Inl (Redeclared (hd (declared rest))), t2))"
    using 3(1) [OF _ r 3(3)] s by simp
  show ?case using t2 ih n by simp
next
  case (4 var rest st)
  have s: "\<not> (st var = None \<and> \<not> isdigit var)" using 4(2) by (auto split: if_splits)
  then obtain new' where r: "check rest st = (Inr new', t)" and n: "new = Print var # new'"
    using 4(2) keep_Inr [of "Print var" "check rest st" new t] by auto
  have "dom st \<subseteq> dom t" using check_mono [of st rest] r by simp
  then have t2: "\<not> (t2 var = None \<and> \<not> isdigit var)" using s 4(3) by auto
  have ih: "check rest t2 = (if declared rest = [] then (Inr new', t2)
                             else (Inl (Redeclared (hd (declared rest))), t2))"
    using 4(1) [OF s r 4(3)] by simp
  show ?case using t2 ih n by simp
next
  case (5 c body rest st)
  then show ?case by simp
next
  case (6 c body rest st)
  then show ?case by simp
qed













section \<open>Division\<close>




text \<open>
  C4. The claim says that \<^verbatim>\<open>7 / 2\<close> evaluates to the integer 3. The division branch of
  \<^verbatim>\<open>eval_expr\<close> is Python's true division \<^verbatim>\<open>left / right\<close>: the result is the float 3.5,
  whatever the runtime is.
\<close>

theorem division_yields_float:
  "eval_expr rt (EBin Divide (EInt 7) (EInt 2)) = PFloat (7 / 2) \<and>
   eval_expr rt (EBin Divide (EInt 7) (EInt 2)) \<noteq> PInt 3"
  by (simp add: py_ne_zero_def py_truediv_def)

section \<open>Declared variables and the runtime\<close>

text \<open>
  C3, as the claim states it, on \<^verbatim>\<open>prgPythonPur.py\<close>: the tree of a declaration of
  \<^verbatim>\<open>x\<close> followed by a print of \<^verbatim>\<open>x\<close>, with the table that the parser builds for it,
  prints \<^verbatim>\<open>None\<close> and not 0.
\<close>

theorem pur_unassigned_prints_None:
  "execute_pur [Pur_decl [''x''], Pur_print ''x''] [''x'' \<mapsto> ''int''] = (None, [None]) \<and>
   execute_pur [Pur_decl [''x''], Pur_print ''x''] [''x'' \<mapsto> ''int''] \<noteq> (None, [Some 0])"
  by (simp add: execute_pur_def)

text \<open>
  C3, amended: in \<^verbatim>\<open>execute\<close> of \<^verbatim>\<open>TP4.py\<close>, a name of the symbol table is bound to the
  integer 0 after any statements none of which assigns to it, and printing it then prints
  the integer 0.
\<close>

theorem declared_unassigned_reads_zero:
  assumes "symbol_table var \<noteq> None" and "\<forall>e. Assign var e \<notin> set ast"
  shows "fst (execute ast symbol_table) var = Some (PInt 0) \<and>
         snd (exec_stmt (Print var) (execute ast symbol_table))
           = snd (execute ast symbol_table) @ [PInt 0]"
proof -
  have "fst (execute ast symbol_table) var = init_runtime symbol_table var"
    unfolding execute_def using run_unassigned [OF assms(2)] by simp
  then have "fst (execute ast symbol_table) var = Some (PInt 0)"
    using assms(1) by (auto simp: init_runtime_def)
  then show ?thesis
    by (cases "execute ast symbol_table") auto
qed

theorem declared_unassigned_reads_zero_witness:
  "[''x'' \<mapsto> ''int''] ''x'' \<noteq> None \<and>
   (\<forall>e. Assign ''x'' e \<notin> set [Decl [''x'']]) \<and>
   fst (execute [Decl [''x'']] [''x'' \<mapsto> ''int'']) ''x'' = Some (PInt 0) \<and>
   snd (exec_stmt (Print ''x'') (execute [Decl [''x'']] [''x'' \<mapsto> ''int''])) = [PInt 0]"
proof -
  have a: "[''x'' \<mapsto> ''int''] ''x'' \<noteq> None" by simp
  have b: "\<forall>e. Assign ''x'' e \<notin> set [Decl [''x'']]" by simp
  have c: "snd (execute [Decl [''x'']] [''x'' \<mapsto> ''int'']) = []"
    by (simp add: execute_def)
  show ?thesis
    using a b c
      declared_unassigned_reads_zero
        [where symbol_table = "[''x'' \<mapsto> ''int'']" and var = "''x''" and ast = "[Decl [''x'']]"]
    by simp
qed

text \<open>
  C9. In \<^verbatim>\<open>execute\<close> of \<^verbatim>\<open>TP4.py\<close>, after the initialisation and after each statement of
  the tree (after the first \<open>n\<close> of them, for every \<open>n\<close>), the keys of the runtime are the
  keys of the symbol table.
\<close>

theorem runtime_keys_are_table_keys:
  "dom (fst (run (take n ast) (init_runtime symbol_table, []))) = dom symbol_table"
  by (simp add: dom_run dom_init_runtime)



section \<open>Declarations\<close>



section \<open>Undeclared variables\<close>




section \<open>Running the analysis twice\<close>

text \<open>
  C8, as the claim states it: \<^verbatim>\<open>check\<close> updates the table of its object, so an earlier
  run has an effect on a later one. On one \<^verbatim>\<open>SemanticTransformer\<close>, the first check of
  the tree of \<^verbatim>\<open>int x;\<close> succeeds and the second check of the same tree fails.
\<close>

theorem second_check_fails:
  "check [Decl [''x'']] Map.empty = (Inr [Decl [''x'']], [''x'' \<mapsto> ''int'']) \<and>
   check [Decl [''x'']] [''x'' \<mapsto> ''int''] = (Inl (Redeclared ''x''), [''x'' \<mapsto> ''int''])"
  by simp

text \<open>
  C8, amended: the analysis is a function of the tree and of the table its object holds
  at the start, which is empty for a new \<^verbatim>\<open>SemanticTransformer\<close>, as
  \<^verbatim>\<open>compile_and_execute\<close> makes one for each run. After a successful check on a new object,
  a second check of the same tree on that object gives the same tree and table when the
  tree declares no name, and fails with \<open>Redeclared\<close> of the first declared name, the
  table unchanged, when it declares one.
\<close>

theorem second_check_on_same_object:
  assumes "check ast Map.empty = (Inr new_ast, t)"
  shows "(declared ast = [] \<longrightarrow> check ast t = (Inr new_ast, t)) \<and>
         (declared ast \<noteq> [] \<longrightarrow> check ast t = (Inl (Redeclared (hd (declared ast))), t))"
  using check_rerun [OF assms, of t] by simp

theorem second_check_on_same_object_witness:
  "check [Decl [''x''], Print ''x''] Map.empty
     = (Inr [Decl [''x''], Print ''x''], [''x'' \<mapsto> ''int'']) \<and>
   declared [Decl [''x''], Print ''x''] \<noteq> [] \<and>
   check [Decl [''x''], Print ''x''] [''x'' \<mapsto> ''int'']
     = (Inl (Redeclared ''x''), [''x'' \<mapsto> ''int'']) \<and>
   check [Print ''7''] Map.empty = (Inr [Print ''7''], Map.empty) \<and>
   declared [Print ''7''] = []"
proof -
  have h: "check [Decl [''x''], Print ''x''] Map.empty
             = (Inr [Decl [''x''], Print ''x''], [''x'' \<mapsto> ''int''])"
    by simp
  have g: "check [Print ''7''] Map.empty = (Inr [Print ''7''], Map.empty)"
    by (simp add: isdigit_def is_decimal_def)
  show ?thesis
    using h g second_check_on_same_object [OF h] second_check_on_same_object [OF g] by simp
qed

section \<open>Loops\<close>



section \<open>Characters that start no token\<close>




end
